theory Spec2Isabelle
  imports Main
begin

section \<open>The example page \<open>docs/src/pages/ex2/0x0.tsx\<close>\<close>

text \<open>
  The module has two imports and one export:
  \<^verbatim>\<open>
  import Translate from '@docusaurus/Translate';
  import Layout from '@theme/Layout';

  export default function Exception() {
    return (
      <Layout title="Exception" description="Explain the Exception exception">
        <Translate description="Exception description">
          An example of an translate.
        </Translate>
      </Layout>
    )
  }
  \<close>
  The function body is one JSX expression. A JSX expression evaluates to an element:
  a component, the attributes written on the tag, and the children between the tags.
\<close>

subsection \<open>Elements\<close>

text \<open>The two component bindings the module imports.\<close>

datatype component = Layout | Translate

text \<open>
  An element carries its attributes in the order they are written, and its children.
  A child is another element or a string.
\<close>

datatype node =
    Element component "(string \<times> string) list" "node list"
  | Text string

text \<open>
  What stands between an opening and a closing tag in the source file: raw text, exactly
  as typed (with its line breaks and indentation), and nested elements.
\<close>

datatype jsx_child = JSXText string | JSXElement node

subsection \<open>Text between tags\<close>

text \<open>
  JSX does not keep raw text as it is typed. The text is split into lines (at CR LF, LF
  or CR); a tab counts as a space; spaces at the start of every line but the first and
  at the end of every line but the last are removed; lines that are empty after that are
  dropped; the lines that remain are joined by one space. A text that comes out empty
  is no child at all.
\<close>

definition LF :: char where
  "LF = CHR 0x0A"

definition CR :: char where
  "CR = CHR 0x0D"

definition TAB :: char where
  "TAB = CHR 0x09"

definition SPACE :: char where
  "SPACE = CHR 0x20"

fun split_lines :: "string \<Rightarrow> string list" where
  "split_lines [] = [[]]"
| "split_lines (c # cs) =
     (if c = LF then [] # split_lines cs
      else if c = CR then
        (case cs of
           [] \<Rightarrow> [[], []]
         | d # ds \<Rightarrow> if d = LF then [] # split_lines ds else [] # split_lines cs)
      else (case split_lines cs of
              [] \<Rightarrow> [[c]]
            | l # ls \<Rightarrow> (c # l) # ls))"

definition non_empty_line :: "string \<Rightarrow> bool" where
  "non_empty_line l = list_ex (\<lambda>c. c \<noteq> SPACE \<and> c \<noteq> TAB) l"

text \<open>The index of the last line holding something other than spaces and tabs, 0 if none.\<close>

fun last_non_empty_line :: "nat \<Rightarrow> nat \<Rightarrow> string list \<Rightarrow> nat" where
  "last_non_empty_line i found [] = found"
| "last_non_empty_line i found (l # ls) =
     last_non_empty_line (Suc i) (if non_empty_line l then i else found) ls"

definition trim_start :: "string \<Rightarrow> string" where
  "trim_start l = dropWhile (\<lambda>c. c = SPACE) l"

definition trim_end :: "string \<Rightarrow> string" where
  "trim_end l = rev (dropWhile (\<lambda>c. c = SPACE) (rev l))"

definition clean_line :: "nat \<Rightarrow> nat \<Rightarrow> nat \<Rightarrow> string \<Rightarrow> string" where
  "clean_line n lastNonEmptyLine i line =
     (let isFirstLine = (i = 0);
          isLastLine = (i = n - 1);
          isLastNonEmptyLine = (i = lastNonEmptyLine);
          l0 = map (\<lambda>c. if c = TAB then SPACE else c) line;
          l1 = (if isFirstLine then l0 else trim_start l0);
          l2 = (if isLastLine then l1 else trim_end l1)
      in if l2 = [] then []
         else if isLastNonEmptyLine then l2
         else l2 @ [SPACE])"

fun clean_lines :: "nat \<Rightarrow> nat \<Rightarrow> nat \<Rightarrow> string list \<Rightarrow> string" where
  "clean_lines n lastNonEmptyLine i [] = []"
| "clean_lines n lastNonEmptyLine i (l # ls) =
     clean_line n lastNonEmptyLine i l @ clean_lines n lastNonEmptyLine (Suc i) ls"

definition clean_jsx_text :: "string \<Rightarrow> string" where
  "clean_jsx_text raw =
     (let lines = split_lines raw
      in clean_lines (length lines) (last_non_empty_line 0 0 lines) 0 lines)"

fun jsx_children :: "jsx_child list \<Rightarrow> node list" where
  "jsx_children [] = []"
| "jsx_children (JSXElement e # ks) = e # jsx_children ks"
| "jsx_children (JSXText raw # ks) =
     (let str = clean_jsx_text raw
      in if str = [] then jsx_children ks else Text str # jsx_children ks)"

text \<open>A JSX expression \<open><C a1="v1" ...> children </C>\<close>.\<close>

definition jsx :: "component \<Rightarrow> (string \<times> string) list \<Rightarrow> jsx_child list \<Rightarrow> node" where
  "jsx c attrs kids = Element c attrs (jsx_children kids)"

subsection \<open>The page component\<close>

text \<open>
  \<open>Exception\<close> takes no argument and returns the JSX expression of its body. The raw
  texts are the ones of the source file: a line break and six spaces before the
  \<open>Translate\<close> tag, a line break and four spaces after it, and inside it the sentence on
  a line of its own, indented by eight spaces and followed by a line break and six
  spaces.
\<close>

definition Exception :: "unit \<Rightarrow> node" where
  "Exception u =
     jsx Layout
       [(''title'', ''Exception''), (''description'', ''Explain the Exception exception'')]
       [JSXText (LF # ''      ''),
        JSXElement
          (jsx Translate
             [(''description'', ''Exception description'')]
             [JSXText (LF # ''        An example of an translate.'' @ LF # ''      '')]),
        JSXText (LF # ''    '')]"

subsection \<open>The module\<close>

text \<open>
  The import and export declarations of the file. An import binds a local name to the
  default export of a module; an export is the default export or a named one, here of a
  function with its parameter count.
\<close>

datatype export_kind = DefaultExport | NamedExport

record export_decl =
  kind :: export_kind
  name :: string
  parameters :: nat

record module_decl =
  module_imports :: "(string \<times> string) list"
  module_exports :: "export_decl list"

definition page_module :: module_decl where
  "page_module =
     \<lparr>module_imports =
        [(''Translate'', ''@docusaurus/Translate''), (''Layout'', ''@theme/Layout'')],
      module_exports =
        [\<lparr>kind = DefaultExport, name = ''Exception'', parameters = 0\<rparr>]\<rparr>"

text \<open>The local name under which each component is imported.\<close>

fun component_name :: "component \<Rightarrow> string" where
  "component_name Layout = ''Layout''"
| "component_name Translate = ''Translate''"

subsection \<open>The two collaborators and the rendering host\<close>

text \<open>
  Modelled from the spec: the layout provider, the translation provider and the host that
  renders an element are not code of this repository (they are the documentation
  framework). The spec gives their interface: the layout provider accepts
  \<open>{ title, description }\<close> and yields a page shell wrapping the supplied child content;
  the translation provider accepts \<open>{ text, description }\<close> and yields the display
  string. They are parameters here, and each may read and change a state \<open>'s\<close> of the
  host.
\<close>

record PageMetadata =
  title :: string
  description :: string

record TranslatableMessage =
  message_text :: string
  message_description :: string

record 's providers =
  layout_provider :: "PageMetadata \<Rightarrow> string \<Rightarrow> 's \<Rightarrow> string \<times> 's"
  translation_provider :: "TranslatableMessage \<Rightarrow> 's \<Rightarrow> string \<times> 's"

datatype render_error = MissingAttribute string | NotASimpleString

text \<open>
  The properties object of an element: an attribute written twice takes its last value.
\<close>

definition get_prop :: "(string \<times> string) list \<Rightarrow> string \<Rightarrow> string option" where
  "get_prop attrs k = map_of (rev attrs) k"

text \<open>
  Modelled from the spec: the configuration a layout element hands to the layout provider.
\<close>

definition layout_config :: "(string \<times> string) list \<Rightarrow> render_error + PageMetadata" where
  "layout_config attrs =
     (case get_prop attrs ''title'' of
        None \<Rightarrow> Inl (MissingAttribute ''title'')
      | Some t \<Rightarrow>
          (case get_prop attrs ''description'' of
             None \<Rightarrow> Inl (MissingAttribute ''description'')
           | Some d \<Rightarrow> Inr \<lparr>title = t, description = d\<rparr>))"

text \<open>
  Modelled from the spec: the message a translation element hands to the translation
  provider. Its text is the element's only child, which has to be a string.
\<close>

definition translatable_message ::
  "(string \<times> string) list \<Rightarrow> node list \<Rightarrow> render_error + TranslatableMessage" where
  "translatable_message attrs kids =
     (case kids of
        [Text t] \<Rightarrow>
          (case get_prop attrs ''description'' of
             None \<Rightarrow> Inl (MissingAttribute ''description'')
           | Some d \<Rightarrow> Inr \<lparr>message_text = t, message_description = d\<rparr>)
      | _ \<Rightarrow> Inl NotASimpleString)"

text \<open>
  Modelled from the spec: one synchronous render pass of the host. A string renders as
  itself; a translation element renders as what the translation provider yields for its
  message; a layout element renders its children in order, inside it, and hands their
  content to the layout provider together with its configuration. The state goes
  through every call in that order.
\<close>

fun render :: "'s providers \<Rightarrow> node \<Rightarrow> 's \<Rightarrow> render_error + string \<times> 's"
  and render_children :: "'s providers \<Rightarrow> node list \<Rightarrow> 's \<Rightarrow> render_error + string \<times> 's"
where
  "render P (Text t) s = Inr (t, s)"
| "render P (Element Translate attrs kids) s =
     (case translatable_message attrs kids of
        Inl e \<Rightarrow> Inl e
      | Inr m \<Rightarrow> Inr (translation_provider P m s))"
| "render P (Element Layout attrs kids) s =
     (case layout_config attrs of
        Inl e \<Rightarrow> Inl e
      | Inr cfg \<Rightarrow>
          (case render_children P kids s of
             Inl e \<Rightarrow> Inl e
           | Inr (content, s1) \<Rightarrow> Inr (layout_provider P cfg content s1)))"
| "render_children P [] s = Inr ([], s)"
| "render_children P (k # ks) s =
     (case render P k s of
        Inl e \<Rightarrow> Inl e
      | Inr (a, s1) \<Rightarrow>
          (case render_children P ks s1 of
             Inl e \<Rightarrow> Inl e
           | Inr (b, s2) \<Rightarrow> Inr (a @ b, s2)))"

text \<open>Modelled from the spec: the host invokes the page component twice, one render after the other.\<close>

definition render_twice ::
  "'s providers \<Rightarrow> (unit \<Rightarrow> node) \<Rightarrow> 's \<Rightarrow> render_error + string \<times> string \<times> 's" where
  "render_twice P page s =
     (case render P (page ()) s of
        Inl e \<Rightarrow> Inl e
      | Inr (a, s1) \<Rightarrow>
          (case render P (page ()) s1 of
             Inl e \<Rightarrow> Inl e
           | Inr (b, s2) \<Rightarrow> Inr (a, b, s2)))"

subsection \<open>Particular collaborators\<close>

text \<open>Collaborators without effect: they compute their result and leave the state alone.\<close>

definition pure_providers ::
  "(TranslatableMessage \<Rightarrow> string) \<Rightarrow> (PageMetadata \<Rightarrow> string \<Rightarrow> string) \<Rightarrow> 's providers" where
  "pure_providers tr shell =
     \<lparr>layout_provider = (\<lambda>cfg content s. (shell cfg content, s)),
      translation_provider = (\<lambda>m s. (tr m, s))\<rparr>"

text \<open>The translation provider that finds no localized variant and falls back to the text.\<close>

definition identity_translation :: "TranslatableMessage \<Rightarrow> 's \<Rightarrow> string \<times> 's" where
  "identity_translation m s = (message_text m, s)"

text \<open>Collaborators that append what they receive to a log, the state of the host.\<close>

datatype call = LayoutCall PageMetadata | TranslateCall TranslatableMessage

definition recording ::
  "(TranslatableMessage \<Rightarrow> string) \<Rightarrow> (PageMetadata \<Rightarrow> string \<Rightarrow> string) \<Rightarrow> call list providers" where
  "recording tr shell =
     \<lparr>layout_provider = (\<lambda>cfg content log. (shell cfg content, log @ [LayoutCall cfg])),
      translation_provider = (\<lambda>m log. (tr m, log @ [TranslateCall m]))\<rparr>"

fun layout_calls :: "call list \<Rightarrow> PageMetadata list" where
  "layout_calls [] = []"
| "layout_calls (LayoutCall cfg # cs) = cfg # layout_calls cs"
| "layout_calls (TranslateCall m # cs) = layout_calls cs"

fun translate_calls :: "call list \<Rightarrow> TranslatableMessage list" where
  "translate_calls [] = []"
| "translate_calls (LayoutCall cfg # cs) = translate_calls cs"
| "translate_calls (TranslateCall m # cs) = m # translate_calls cs"

text \<open>The log of one render that starts with an empty log.\<close>

definition recorded_calls ::
  "(TranslatableMessage \<Rightarrow> string) \<Rightarrow> (PageMetadata \<Rightarrow> string \<Rightarrow> string) \<Rightarrow> node
     \<Rightarrow> render_error + call list" where
  "recorded_calls tr shell n =
     (case render (recording tr shell) n [] of
        Inl e \<Rightarrow> Inl e
      | Inr (out, log) \<Rightarrow> Inr log)"

subsection \<open>Looking into a tree\<close>

fun node_attributes :: "node \<Rightarrow> (string \<times> string) list" where
  "node_attributes (Element c attrs kids) = attrs"
| "node_attributes (Text t) = []"

fun node_children :: "node \<Rightarrow> node list" where
  "node_children (Element c attrs kids) = kids"
| "node_children (Text t) = []"

fun count_elements :: "node \<Rightarrow> nat" where
  "count_elements (Element c attrs kids) = Suc (sum_list (map count_elements kids))"
| "count_elements (Text t) = 0"

text \<open>The components of the elements of a tree, parents before children.\<close>

fun components :: "node \<Rightarrow> component list" where
  "components (Element c attrs kids) = c # concat (map components kids)"
| "components (Text t) = []"

text \<open>All strings of a tree, and those that are not inside a translation element.\<close>

fun text_nodes :: "node \<Rightarrow> string list" where
  "text_nodes (Element c attrs kids) = concat (map text_nodes kids)"
| "text_nodes (Text t) = [t]"

fun untranslated_text_nodes :: "node \<Rightarrow> string list" where
  "untranslated_text_nodes (Element Translate attrs kids) = []"
| "untranslated_text_nodes (Element Layout attrs kids) =
     concat (map untranslated_text_nodes kids)"
| "untranslated_text_nodes (Text t) = [t]"

section \<open>Properties\<close>

subsection \<open>Evaluating the JSX expression\<close>

lemma clean_indentation_6: "clean_jsx_text (LF # ''      '') = []"
  by (simp add: clean_jsx_text_def clean_line_def LF_def CR_def TAB_def SPACE_def
      non_empty_line_def trim_start_def trim_end_def Let_def)

lemma clean_indentation_4: "clean_jsx_text (LF # ''    '') = []"
  by (simp add: clean_jsx_text_def clean_line_def LF_def CR_def TAB_def SPACE_def
      non_empty_line_def trim_start_def trim_end_def Let_def)

lemma clean_sentence:
  "clean_jsx_text (LF # ''        An example of an translate.'' @ LF # ''      '') =
     ''An example of an translate.''"
  by (simp add: clean_jsx_text_def clean_line_def LF_def CR_def TAB_def SPACE_def
      non_empty_line_def trim_start_def trim_end_def Let_def)

lemma Exception_tree:
  "Exception u =
     Element Layout
       [(''title'', ''Exception''), (''description'', ''Explain the Exception exception'')]
       [Element Translate
          [(''description'', ''Exception description'')]
          [Text ''An example of an translate.'']]"
  unfolding Exception_def jsx_def
  by (simp add: clean_indentation_6 clean_indentation_4 clean_sentence del: append.simps)

lemma Exception_layout_config:
  "layout_config (node_attributes (Exception u)) =
     Inr \<lparr>title = ''Exception'', description = ''Explain the Exception exception''\<rparr>"
  by (simp add: Exception_tree layout_config_def get_prop_def)

lemma Exception_message:
  "translatable_message
     [(''description'', ''Exception description'')] [Text ''An example of an translate.''] =
   Inr \<lparr>message_text = ''An example of an translate.'',
        message_description = ''Exception description''\<rparr>"
  by (simp add: translatable_message_def get_prop_def)

lemma render_Exception:
  "render P (Exception u) s =
     Inr (case translation_provider P
                 \<lparr>message_text = ''An example of an translate.'',
                  message_description = ''Exception description''\<rparr> s of
            (t, s1) \<Rightarrow>
              layout_provider P
                \<lparr>title = ''Exception'', description = ''Explain the Exception exception''\<rparr>
                t s1)"
proof -
  have cfg: "layout_config
      [(''title'', ''Exception''), (''description'', ''Explain the Exception exception'')] =
      Inr \<lparr>title = ''Exception'', description = ''Explain the Exception exception''\<rparr>"
    by (simp add: layout_config_def get_prop_def)
  show ?thesis
    unfolding Exception_tree
    by (simp add: cfg Exception_message split: prod.split)
qed

subsection \<open>The claims\<close>

text \<open>
  C1. The configuration of the layout element is exactly title "Exception" and description
  "Explain the Exception exception", and one render with recording collaborators, started
  with an empty log, records exactly one call of the layout provider, with that
  configuration.
\<close>

theorem layout_configuration_recorded_once:
  "layout_config (node_attributes (Exception u)) =
     Inr \<lparr>title = ''Exception'', description = ''Explain the Exception exception''\<rparr>
   \<and> map_sum id layout_calls (recorded_calls tr shell (Exception u)) =
     Inr [\<lparr>title = ''Exception'', description = ''Explain the Exception exception''\<rparr>]"
  by (simp add: Exception_layout_config recorded_calls_def render_Exception recording_def)

text \<open>
  C2. The layout element has one child, whose message is exactly text
  "An example of an translate." and description "Exception description", and one render
  with recording collaborators hands the translation provider that message and no other.
\<close>

theorem translatable_message_literal:
  "map (\<lambda>k. translatable_message (node_attributes k) (node_children k))
       (node_children (Exception u)) =
     [Inr \<lparr>message_text = ''An example of an translate.'',
           message_description = ''Exception description''\<rparr>]
   \<and> map_sum id translate_calls (recorded_calls tr shell (Exception u)) =
     Inr [\<lparr>message_text = ''An example of an translate.'',
           message_description = ''Exception description''\<rparr>]"
proof
  show "map (\<lambda>k. translatable_message (node_attributes k) (node_children k))
       (node_children (Exception u)) =
     [Inr \<lparr>message_text = ''An example of an translate.'',
           message_description = ''Exception description''\<rparr>]"
    by (simp add: Exception_tree Exception_message)
  show "map_sum id translate_calls (recorded_calls tr shell (Exception u)) =
     Inr [\<lparr>message_text = ''An example of an translate.'',
           message_description = ''Exception description''\<rparr>]"
    by (simp add: recorded_calls_def render_Exception recording_def)
qed

text \<open>
  C3. The tree that \<open>Exception\<close> returns has exactly two elements: the layout element,
  with the attributes title and description and nothing else, whose only child is the
  translation element, with the attribute description and nothing else, whose only child
  is the sentence.
\<close>

theorem render_tree_two_nested_elements:
  "Exception u =
     Element Layout
       [(''title'', ''Exception''), (''description'', ''Explain the Exception exception'')]
       [Element Translate
          [(''description'', ''Exception description'')]
          [Text ''An example of an translate.'']]
   \<and> count_elements (Exception u) = 2
   \<and> components (Exception u) = [Layout, Translate]"
  by (simp add: Exception_tree)

text \<open>
  C4. With the translation provider that returns the text of its message, the content
  rendered inside the layout element is the sentence "An example of an translate."
  and nothing more, whatever the layout provider and the state; the line breaks and the
  indentation around the sentence in the source file are not part of it.
\<close>

theorem identity_translation_renders_sentence_verbatim:
  "render_children
     \<lparr>layout_provider = lp, translation_provider = identity_translation\<rparr>
     (node_children (Exception u)) s =
     Inr (''An example of an translate.'', s)
   \<and> render \<lparr>layout_provider = lp, translation_provider = identity_translation\<rparr>
       (Exception u) s =
     Inr (lp \<lparr>title = ''Exception'', description = ''Explain the Exception exception''\<rparr>
            ''An example of an translate.'' s)
   \<and> clean_jsx_text (LF # ''        An example of an translate.'' @ LF # ''      '') =
     ''An example of an translate.''
   \<and> text_nodes (Exception u) = [''An example of an translate.'']"
proof (intro conjI)
  show "render_children
     \<lparr>layout_provider = lp, translation_provider = identity_translation\<rparr>
     (node_children (Exception u)) s =
     Inr (''An example of an translate.'', s)"
    by (simp add: Exception_tree Exception_message identity_translation_def)
  show "render \<lparr>layout_provider = lp, translation_provider = identity_translation\<rparr>
       (Exception u) s =
     Inr (lp \<lparr>title = ''Exception'', description = ''Explain the Exception exception''\<rparr>
            ''An example of an translate.'' s)"
    by (simp add: render_Exception identity_translation_def)
  show "clean_jsx_text (LF # ''        An example of an translate.'' @ LF # ''      '') =
     ''An example of an translate.''"
    by (rule clean_sentence)
  show "text_nodes (Exception u) = [''An example of an translate.'']"
    by (simp add: Exception_tree)
qed

text \<open>
  C5. Two invocations of \<open>Exception\<close> return the same tree, and rendering it in the same
  state with the same collaborators gives the same result. When the host renders the page
  twice in a row with collaborators that leave the state alone, both renders give the
  same output.
\<close>

theorem render_deterministic_idempotent:
  "Exception u = Exception v
   \<and> render P (Exception u) s = render P (Exception v) s
   \<and> (\<exists>out. render_twice (pure_providers tr shell) Exception s = Inr (out, out, s))"
  by (simp add: render_twice_def render_Exception pure_providers_def)

text \<open>
  C6. Rendering the page never fails: \<open>Exception\<close> returns a layout element at every
  invocation, and for all collaborators and every state the render of that tree is a
  result, and it is no error.
\<close>

theorem render_total_no_error:
  "(\<exists>attrs kids. Exception u = Element Layout attrs kids)
   \<and> (\<exists>out s'. render P (Exception u) s = Inr (out, s'))
   \<and> (\<nexists>e. render P (Exception u) s = Inl e)"
proof (intro conjI)
  show "\<exists>attrs kids. Exception u = Element Layout attrs kids"
    by (simp add: Exception_tree)
  show "\<exists>out s'. render P (Exception u) s = Inr (out, s')"
    by (simp add: render_Exception split: prod.split)
  show "\<nexists>e. render P (Exception u) s = Inl e"
    by (simp add: render_Exception)
qed

text \<open>
  C8. The render of the page is the translation provider applied to a literal message,
  followed by the layout provider applied to a literal configuration and the translated
  text; the state goes through these two calls and nothing else. The module imports
  exactly the two components, and the tree uses exactly those two.
\<close>

theorem render_is_composition_of_two_providers:
  "render P (Exception u) s =
     Inr (case translation_provider P
                 \<lparr>message_text = ''An example of an translate.'',
                  message_description = ''Exception description''\<rparr> s of
            (t, s1) \<Rightarrow>
              layout_provider P
                \<lparr>title = ''Exception'', description = ''Explain the Exception exception''\<rparr>
                t s1)
   \<and> map fst (module_imports page_module) = [''Translate'', ''Layout'']
   \<and> set (map component_name (components (Exception u))) =
     set (map fst (module_imports page_module))"
proof (intro conjI)
  show "render P (Exception u) s =
     Inr (case translation_provider P
                 \<lparr>message_text = ''An example of an translate.'',
                  message_description = ''Exception description''\<rparr> s of
            (t, s1) \<Rightarrow>
              layout_provider P
                \<lparr>title = ''Exception'', description = ''Explain the Exception exception''\<rparr>
                t s1)"
    by (rule render_Exception)
  show "map fst (module_imports page_module) = [''Translate'', ''Layout'']"
    by (simp add: page_module_def)
  show "set (map component_name (components (Exception u))) =
     set (map fst (module_imports page_module))"
    by (simp add: Exception_tree page_module_def insert_commute)
qed

text \<open>
  C10. The children of the layout element are exactly the one translation element; the
  tree has one string, the sentence, and no string outside a translation element.
\<close>

theorem all_text_inside_translation_element:
  "node_children (Exception u) =
     [Element Translate
        [(''description'', ''Exception description'')]
        [Text ''An example of an translate.'']]
   \<and> text_nodes (Exception u) = [''An example of an translate.'']
   \<and> untranslated_text_nodes (Exception u) = []"
  by (simp add: Exception_tree)

end
